theory Spec2Isabelle
  imports Main "HOL-Library.Sublist"
begin

section \<open>The deployment stack of the beacon lambda\<close>

text \<open>
  The repository declares one stack class, \<open>ElsaDataBeaconLambdaStack\<close>, and one entry
  script that instantiates it once. Both are written against an infrastructure framework
  whose classes (\<open>App\<close>, \<open>Stack\<close>, \<open>Role\<close>, \<open>PolicyStatement\<close>, \<open>DockerImageFunction\<close>)
  are not part of the repository. The framework is modelled by what the two source files
  rely on: a constructor records the properties it is given in the construct tree, a
  construct is registered in its scope under its id, and a scope refuses a second child
  with an id it already holds.

  The model of the framework is meant for ids, names and values like the ones the source
  passes. It leaves out, and no theorem below relies on, what the framework does elsewhere:
  its rejection of an empty id and of a stack name with characters other than letters,
  digits and hyphens, its rewriting of a slash in an id, its check of the syntax of an
  action string, and its reading of the image directory. A failed constructor is the
  error alone: what an aborted constructor has already left in its scope is not modelled.

  Objects that the source mutates after creating them (the role) live in the tree of
  their stack and are referred to by their construct id, so that a later holder of the
  reference (the function) sees every change made through it.
\<close>

subsection \<open>Property objects and values\<close>

record Environment =
  account :: string
  region :: string

record StackProps =
  env :: "Environment option"

datatype Principal = ServicePrincipal string

datatype ManagedPolicy = fromAwsManagedPolicyName string

datatype Effect = ALLOW | DENY

record PolicyStatementProps =
  actions :: "string list"
  resources :: "string list"

record PolicyStatement = PolicyStatementProps +
  effect :: Effect

text \<open>
  A duration is an amount of whole seconds that is not negative: the framework refuses a
  negative amount when the duration is made, so that no duration holds one. The source
  makes one duration, of 60 seconds.
\<close>

datatype Duration = Duration_seconds nat

fun toSeconds :: "Duration \<Rightarrow> nat" where
  "toSeconds (Duration_seconds n) = n"

datatype Architecture = ARM_64 | X86_64

datatype DockerImageCode = fromImageAsset string "(string \<times> string) list"

record RoleProps =
  assumedBy :: Principal
  description :: string

record Role = RoleProps +
  managedPolicies :: "ManagedPolicy list"
  statements :: "PolicyStatement list"

record DockerImageFunctionProps =
  code :: DockerImageCode
  timeout :: Duration
  functionName :: string
  architecture :: Architecture
  role :: string

subsection \<open>The construct tree\<close>

datatype Construct = RoleNode Role | FunctionNode DockerImageFunctionProps

record Stack =
  stackId :: string
  stackEnv :: "Environment option"
  children :: "(string \<times> Construct) list"

record App =
  stacks :: "(string \<times> Stack) list"

datatype error = NameClash string

definition new_App :: App where
  "new_App = \<lparr>stacks = []\<rparr>"

definition new_Stack :: "App \<Rightarrow> string \<Rightarrow> StackProps option \<Rightarrow> error + Stack" where
  \<comment> \<open>\<open>super(scope, id, props)\<close>: the scope must not hold the id yet.\<close>
  "new_Stack scope ident props =
     (if ident \<in> set (map fst (stacks scope)) then Inl (NameClash ident)
      else Inr \<lparr>stackId = ident,
                stackEnv = (case props of None \<Rightarrow> None | Some p \<Rightarrow> env p),
                children = []\<rparr>)"

definition register :: "App \<Rightarrow> Stack \<Rightarrow> App" where
  "register scope this = scope\<lparr>stacks := stacks scope @ [(stackId this, this)]\<rparr>"

definition addChild :: "Stack \<Rightarrow> string \<Rightarrow> Construct \<Rightarrow> error + Stack" where
  "addChild this cid c =
     (if cid \<in> set (map fst (children this)) then Inl (NameClash cid)
      else Inr (this\<lparr>children := children this @ [(cid, c)]\<rparr>))"

definition addOnce :: "'a list \<Rightarrow> 'a \<Rightarrow> 'a list" where
  \<comment> \<open>The framework keeps an entry once, at the place where it came first.\<close>
  "addOnce xs x = (if x \<in> set xs then xs else xs @ [x])"

definition new_PolicyStatement :: "PolicyStatementProps \<Rightarrow> PolicyStatement" where
  \<comment> \<open>No effect is passed by the source; the framework's default is Allow. A repeated
      action or resource is kept once.\<close>
  "new_PolicyStatement props =
     \<lparr>actions = foldl addOnce [] (actions props),
      resources = foldl addOnce [] (resources props),
      effect = ALLOW\<rparr>"

definition new_Role :: "Stack \<Rightarrow> string \<Rightarrow> RoleProps \<Rightarrow> error + (Stack \<times> string)" where
  \<comment> \<open>Returns the stack holding the new role and the reference to the role.\<close>
  "new_Role this cid props =
     (case addChild this cid
             (RoleNode \<lparr>assumedBy = assumedBy props, description = description props,
                        managedPolicies = [], statements = []\<rparr>) of
        Inl e \<Rightarrow> Inl e
      | Inr this' \<Rightarrow> Inr (this', cid))"

fun updateRole :: "(Role \<Rightarrow> Role) \<Rightarrow> Construct \<Rightarrow> Construct" where
  "updateRole f (RoleNode r) = RoleNode (f r)"
| "updateRole f (FunctionNode p) = FunctionNode p"

definition modify :: "string \<Rightarrow> (Construct \<Rightarrow> Construct) \<Rightarrow> Stack \<Rightarrow> Stack" where
  "modify ref f this =
     this\<lparr>children := map (\<lambda>(i, c). if i = ref then (i, f c) else (i, c)) (children this)\<rparr>"

definition addManagedPolicy :: "string \<Rightarrow> ManagedPolicy \<Rightarrow> Stack \<Rightarrow> Stack" where
  \<comment> \<open>A policy that the role already holds is not added again.\<close>
  "addManagedPolicy ref policy this =
     modify ref
       (updateRole (\<lambda>r. r\<lparr>managedPolicies := addOnce (managedPolicies r) policy\<rparr>)) this"

definition addToPolicy :: "string \<Rightarrow> PolicyStatement \<Rightarrow> Stack \<Rightarrow> Stack" where
  "addToPolicy ref statement this =
     modify ref (updateRole (\<lambda>r. r\<lparr>statements := statements r @ [statement]\<rparr>)) this"

definition new_DockerImageFunction ::
  "Stack \<Rightarrow> string \<Rightarrow> DockerImageFunctionProps \<Rightarrow> error + (Stack \<times> string)" where
  "new_DockerImageFunction this cid props =
     (case addChild this cid (FunctionNode props) of
        Inl e \<Rightarrow> Inl e
      | Inr this' \<Rightarrow> Inr (this', cid))"

subsection \<open>Reading a stack\<close>

fun roleAt :: "Stack \<Rightarrow> string \<Rightarrow> Role option" where
  "roleAt this ref =
     (case map_of (children this) ref of Some (RoleNode r) \<Rightarrow> Some r | _ \<Rightarrow> None)"

fun functionsOf :: "(string \<times> Construct) list \<Rightarrow> DockerImageFunctionProps list" where
  "functionsOf [] = []"
| "functionsOf ((i, FunctionNode p) # cs) = p # functionsOf cs"
| "functionsOf ((i, RoleNode r) # cs) = functionsOf cs"

fun rolesOf :: "(string \<times> Construct) list \<Rightarrow> Role list" where
  "rolesOf [] = []"
| "rolesOf ((i, RoleNode r) # cs) = r # rolesOf cs"
| "rolesOf ((i, FunctionNode p) # cs) = rolesOf cs"

subsection \<open>The stack class\<close>

definition lambdaRole_props :: "string \<Rightarrow> RoleProps" where
  \<comment> \<open>The properties passed to \<open>new Role\<close> (stack source, lines 24 to 27).\<close>
  "lambdaRole_props ident =
     \<lparr>assumedBy = ServicePrincipal ''lambda.amazonaws.com'',
      description = ''Lambda execution role for '' @ ident\<rparr>"

definition s3BucketPolicy :: PolicyStatement where
  \<comment> \<open>Stack source, lines 29 to 32.\<close>
  "s3BucketPolicy =
     new_PolicyStatement
       \<lparr>actions = [''s3:List*'', ''s3:Get*''],
        resources = [''arn:aws:s3:::umccr-10*'']\<rparr>"

definition basicExecutionPolicy :: ManagedPolicy where
  \<comment> \<open>The argument of \<open>addManagedPolicy\<close> (stack source, lines 35 to 37).\<close>
  "basicExecutionPolicy = fromAwsManagedPolicyName ''service-role/AWSLambdaBasicExecutionRole''"

definition beacon_props :: "string \<Rightarrow> DockerImageFunctionProps" where
  \<comment> \<open>The properties passed to \<open>new DockerImageFunction\<close> (stack source, lines 41 to
      47); the role is the reference held in \<open>lambdaRole\<close>.\<close>
  "beacon_props lambdaRole =
     \<lparr>code = fromImageAsset ''application/lambda/beacon'' [],
      timeout = Duration_seconds 60,
      functionName = ''elsa-data-beacon'',
      architecture = ARM_64,
      role = lambdaRole\<rparr>"

definition ElsaDataBeaconLambdaStack ::
  "App \<Rightarrow> string \<Rightarrow> StackProps option \<Rightarrow> error + App" where
  \<comment> \<open>The constructor (stack source, lines 21 to 48), statement by statement; the
      result is the scope with the new stack registered.\<close>
  "ElsaDataBeaconLambdaStack scope ident props =
     (case new_Stack scope ident props of
        Inl e \<Rightarrow> Inl e
      | Inr this0 \<Rightarrow>
          (case new_Role this0 ''Role'' (lambdaRole_props ident) of
             Inl e \<Rightarrow> Inl e
           | Inr (this1, lambdaRole) \<Rightarrow>
               (let this2 = addManagedPolicy lambdaRole basicExecutionPolicy this1;
                    this3 = addToPolicy lambdaRole s3BucketPolicy this2
                in case new_DockerImageFunction this3 ''BeaconHandler''
                          (beacon_props lambdaRole) of
                     Inl e \<Rightarrow> Inl e
                   | Inr (this4, beacon) \<Rightarrow> Inr (register scope this4))))"

subsection \<open>The entry script\<close>

definition app :: App where
  \<comment> \<open>Entry script, line 6.\<close>
  "app = new_App"

definition elsa_data_beacon_lambda :: "error + App" where
  \<comment> \<open>Entry script, lines 8 to 11: the application after the one instantiation.\<close>
  "elsa_data_beacon_lambda =
     ElsaDataBeaconLambdaStack app ''ElaDataBeaconLambdaStack''
       (Some \<lparr>env = Some \<lparr>account = ''843407916570'', region = ''ap-southeast-2''\<rparr>\<rparr>)"

subsection \<open>The invocation example\<close>

definition invoke :: "string list" where
  \<comment> \<open>The words of the documented command line (invocation example, line 1), after
      the shell has split it.\<close>
  \<open>invoke =
     [''aws'', ''lambda'', ''invoke'', ''--function-name'', ''elsa-data-beacon'',
      ''--cli-binary-format'', ''raw-in-base64-out'', ''--payload'',
      ''{"vcf_bucket":"umccr-10g-data-dev", "vcf_key": "HG00174/HG00174.hard-filtered.vcf.gz", "vcf_index_bucket": "umccr-10g-data-dev", "vcf_index_key": "HG00174/HG00174.hard-filtered.vcf.gz.tbi", "reference_name": "chr1", "start": 1220751, "reference_bases": "T", "alternate_bases": "C"}'',
      ''output.json'']\<close>

fun optionValue :: "string \<Rightarrow> string list \<Rightarrow> string option" where
  "optionValue opt (a # b # rest) =
     (if a = opt then Some b else optionValue opt (b # rest))"
| "optionValue opt rest = None"

subsection \<open>Notions of the specification\<close>

definition readOnlyAction :: "string \<Rightarrow> bool" where
  \<comment> \<open>Modelled from the spec: the read-only allow-list of storage verbs (list and get);
      the source holds no such list.\<close>
  "readOnlyAction a = (prefix ''s3:List'' a \<or> prefix ''s3:Get'' a)"

definition approvedResource :: "string \<Rightarrow> bool" where
  \<comment> \<open>Modelled from the spec: the approved bucket-naming prefix, taken from the one
      resource pattern the source names; the source holds no such check.\<close>
  "approvedResource r = prefix ''arn:aws:s3:::umccr-10'' r"

definition platformMaximum :: nat where
  \<comment> \<open>Modelled from the spec: the platform's maximum execution time in seconds (the
      spec's example value); the source names no maximum.\<close>
  "platformMaximum = 900"

definition identityInvariant :: "Role \<Rightarrow> bool" where
  \<comment> \<open>The invariant the specification gives for an execution identity: it trusts the
      lambda service, and among its managed policies is the platform's baseline policy
      that grants a function its logging permissions. Both are named here in full,
      whatever the stack attaches.\<close>
  "identityInvariant r =
     (assumedBy r = ServicePrincipal ''lambda.amazonaws.com'' \<and>
      fromAwsManagedPolicyName ''service-role/AWSLambdaBasicExecutionRole''
        \<in> set (managedPolicies r))"

definition beaconStack :: "string \<Rightarrow> StackProps option \<Rightarrow> Stack" where
  \<comment> \<open>The stack value that the constructor arrives at for an id and properties, written
      out; \<open>ElsaDataBeaconLambdaStack_result\<close> below derives it from the constructor.\<close>
  "beaconStack ident props =
     \<lparr>stackId = ident,
      stackEnv = (case props of None \<Rightarrow> None | Some p \<Rightarrow> env p),
      children =
        [(''Role'',
          RoleNode \<lparr>assumedBy = ServicePrincipal ''lambda.amazonaws.com'',
                    description = ''Lambda execution role for '' @ ident,
                    managedPolicies =
                      [fromAwsManagedPolicyName ''service-role/AWSLambdaBasicExecutionRole''],
                    statements =
                      [\<lparr>actions = [''s3:List*'', ''s3:Get*''],
                        resources = [''arn:aws:s3:::umccr-10*''],
                        effect = ALLOW\<rparr>]\<rparr>),
         (''BeaconHandler'',
          FunctionNode \<lparr>code = fromImageAsset ''application/lambda/beacon'' [],
                        timeout = Duration_seconds 60,
                        functionName = ''elsa-data-beacon'',
                        architecture = ARM_64,
                        role = ''Role''\<rparr>)]\<rparr>"

section \<open>Basic facts\<close>

lemmas model_defs =
  ElsaDataBeaconLambdaStack_def new_Stack_def new_Role_def addChild_def
  addManagedPolicy_def addToPolicy_def modify_def new_DockerImageFunction_def
  addOnce_def lambdaRole_props_def s3BucketPolicy_def new_PolicyStatement_def
  basicExecutionPolicy_def beacon_props_def

lemma map_of_snoc_fresh:
  "k \<notin> set (map fst xs) \<Longrightarrow> map_of (xs @ [(k, v)]) k = Some v"
  by (induction xs) auto

lemma lookup_register:
  "stackId this \<notin> set (map fst (stacks scope)) \<Longrightarrow>
   map_of (stacks (register scope this)) (stackId this) = Some this"
  unfolding register_def using map_of_snoc_fresh [of "stackId this" "stacks scope" this]
  by simp

lemma functionsOf_snoc:
  "functionsOf (cs @ [(i, FunctionNode p)]) = functionsOf cs @ [p]"
  by (induction cs rule: functionsOf.induct) simp_all

text \<open>
  In the model the constructor fails exactly when the scope already holds the id, and
  otherwise registers the stack with its one role and its one function: the children's
  ids are distinct literals, so that building them in the fresh stack cannot fail.
\<close>

lemma ElsaDataBeaconLambdaStack_result:
  "ElsaDataBeaconLambdaStack scope ident props =
     (if ident \<in> set (map fst (stacks scope)) then Inl (NameClash ident)
      else Inr (register scope (beaconStack ident props)))"
  by (simp add: model_defs beaconStack_def register_def)

lemma ElsaDataBeaconLambdaStack_Inr:
  assumes "ElsaDataBeaconLambdaStack scope ident props = Inr a"
  shows "ident \<notin> set (map fst (stacks scope))"
    and "a = register scope (beaconStack ident props)"
    and "map_of (stacks a) ident = Some (beaconStack ident props)"
proof -
  show fresh: "ident \<notin> set (map fst (stacks scope))"
    using assms by (auto simp: ElsaDataBeaconLambdaStack_result split: if_splits)
  show a: "a = register scope (beaconStack ident props)"
    using assms fresh by (simp add: ElsaDataBeaconLambdaStack_result)
  have "stackId (beaconStack ident props) = ident"
    by (simp add: beaconStack_def)
  with fresh lookup_register [of "beaconStack ident props" scope] a
  show "map_of (stacks a) ident = Some (beaconStack ident props)"
    by simp
qed

lemma beaconStack_functions:
  "functionsOf (children (beaconStack ident props)) =
     [\<lparr>code = fromImageAsset ''application/lambda/beacon'' [],
       timeout = Duration_seconds 60,
       functionName = ''elsa-data-beacon'',
       architecture = ARM_64,
       role = ''Role''\<rparr>]"
  by (simp add: beaconStack_def)

lemma beaconStack_roles:
  "rolesOf (children (beaconStack ident props)) =
     [\<lparr>assumedBy = ServicePrincipal ''lambda.amazonaws.com'',
       description = ''Lambda execution role for '' @ ident,
       managedPolicies =
         [fromAwsManagedPolicyName ''service-role/AWSLambdaBasicExecutionRole''],
       statements =
         [\<lparr>actions = [''s3:List*'', ''s3:Get*''],
           resources = [''arn:aws:s3:::umccr-10*''],
           effect = ALLOW\<rparr>]\<rparr>]"
  by (simp add: beaconStack_def)

lemma entry_result:
  "elsa_data_beacon_lambda =
     Inr \<lparr>stacks =
       [(''ElaDataBeaconLambdaStack'',
         beaconStack ''ElaDataBeaconLambdaStack''
           (Some \<lparr>env = Some \<lparr>account = ''843407916570'',
                               region = ''ap-southeast-2''\<rparr>\<rparr>))]\<rparr>"
  by (simp add: elsa_data_beacon_lambda_def app_def new_App_def
      ElsaDataBeaconLambdaStack_result register_def beaconStack_def)

section \<open>The entry script's stack\<close>

text \<open>
  C1. Running the entry script succeeds. The application then holds one stack for
  account 843407916570 in ap-southeast-2, with exactly one function (named
  elsa-data-beacon, 60 seconds, ARM64) whose role reference resolves to the stack's only
  role; that role carries exactly one inline statement, with the actions s3:List* and
  s3:Get* on arn:aws:s3:::umccr-10*, and exactly one managed policy, the basic execution
  policy of the lambda service.
\<close>

theorem end_to_end_assembly:
  "\<exists>a s r f.
     elsa_data_beacon_lambda = Inr a \<and>
     stacks a = [(''ElaDataBeaconLambdaStack'', s)] \<and>
     stackEnv s = Some \<lparr>account = ''843407916570'', region = ''ap-southeast-2''\<rparr> \<and>
     functionsOf (children s) = [f] \<and>
     rolesOf (children s) = [r] \<and>
     roleAt s (role f) = Some r \<and>
     functionName f = ''elsa-data-beacon'' \<and>
     timeout f = Duration_seconds 60 \<and>
     architecture f = ARM_64 \<and>
     statements r =
       [\<lparr>actions = [''s3:List*'', ''s3:Get*''],
         resources = [''arn:aws:s3:::umccr-10*''],
         effect = ALLOW\<rparr>] \<and>
     managedPolicies r =
       [fromAwsManagedPolicyName ''service-role/AWSLambdaBasicExecutionRole'']"
  by (simp add: entry_result beaconStack_def)

text \<open>
  C7. Every stack that the entry script creates is bound to the one environment, account
  843407916570 in region ap-southeast-2: the environments of the application's stacks are
  this single pair.
\<close>

theorem target_fixed:
  "\<exists>a. elsa_data_beacon_lambda = Inr a \<and>
       map (\<lambda>(i, s). stackEnv s) (stacks a) =
         [Some \<lparr>account = ''843407916570'', region = ''ap-southeast-2''\<rparr>]"
  by (simp add: entry_result beaconStack_def)

text \<open>
  C8. The name given to \<open>--function-name\<close> in the documented invocation is the
  function name of the one function that the entry script declares, elsa-data-beacon.
\<close>

theorem invocation_name_matches:
  "\<exists>a s f.
     elsa_data_beacon_lambda = Inr a \<and>
     map snd (stacks a) = [s] \<and>
     functionsOf (children s) = [f] \<and>
     functionName f = ''elsa-data-beacon'' \<and>
     optionValue ''--function-name'' invoke = Some (functionName f)"
  by (simp add: entry_result beaconStack_functions invoke_def)

text \<open>
  C9. The entry script creates exactly one stack, under the literal id
  ElaDataBeaconLambdaStack, and the description of its role is the text
  "Lambda execution role for " followed by that id.
\<close>

theorem stack_identifier_and_description:
  "\<exists>a s r.
     elsa_data_beacon_lambda = Inr a \<and>
     stacks a = [(''ElaDataBeaconLambdaStack'', s)] \<and>
     stackId s = ''ElaDataBeaconLambdaStack'' \<and>
     stackId s \<noteq> ''ElsaDataBeaconLambdaStack'' \<and>
     rolesOf (children s) = [r] \<and>
     description r = ''Lambda execution role for '' @ stackId s \<and>
     description r = ''Lambda execution role for ElaDataBeaconLambdaStack''"
  by (simp add: entry_result beaconStack_def)

section \<open>The constructor for any scope, id and properties\<close>

text \<open>
  C10. Whatever scope, id and properties the constructor is given, a stack it builds holds
  exactly one function, with the image taken from the local path application/lambda/beacon
  with no build options, the name elsa-data-beacon, a timeout of 60 seconds and the ARM64
  architecture.
\<close>

theorem binding_parameters_fixed:
  assumes "ElsaDataBeaconLambdaStack scope ident props = Inr a"
  shows "\<exists>s. map_of (stacks a) ident = Some s \<and>
             functionsOf (children s) =
               [\<lparr>code = fromImageAsset ''application/lambda/beacon'' [],
                 timeout = Duration_seconds 60,
                 functionName = ''elsa-data-beacon'',
                 architecture = ARM_64,
                 role = ''Role''\<rparr>]"
  using ElsaDataBeaconLambdaStack_Inr(3) [OF assms] beaconStack_functions by simp

text \<open>
  C10, at a concrete input: an id and an environment other than the entry script's give
  the same function.
\<close>

theorem binding_parameters_fixed_witness:
  "ElsaDataBeaconLambdaStack new_App ''Other''
     (Some \<lparr>env = Some \<lparr>account = ''000000000000'', region = ''us-east-1''\<rparr>\<rparr>) =
     Inr (register new_App
            (beaconStack ''Other''
               (Some \<lparr>env = Some \<lparr>account = ''000000000000'',
                                   region = ''us-east-1''\<rparr>\<rparr>))) \<and>
   (\<exists>s. map_of
          (stacks (register new_App
             (beaconStack ''Other''
                (Some \<lparr>env = Some \<lparr>account = ''000000000000'',
                                    region = ''us-east-1''\<rparr>\<rparr>))))
          ''Other'' = Some s \<and>
        functionsOf (children s) =
          [\<lparr>code = fromImageAsset ''application/lambda/beacon'' [],
            timeout = Duration_seconds 60,
            functionName = ''elsa-data-beacon'',
            architecture = ARM_64,
            role = ''Role''\<rparr>])"
proof -
  have h: "ElsaDataBeaconLambdaStack new_App ''Other''
     (Some \<lparr>env = Some \<lparr>account = ''000000000000'', region = ''us-east-1''\<rparr>\<rparr>) =
     Inr (register new_App
            (beaconStack ''Other''
               (Some \<lparr>env = Some \<lparr>account = ''000000000000'',
                                   region = ''us-east-1''\<rparr>\<rparr>)))"
    by (simp add: ElsaDataBeaconLambdaStack_result new_App_def)
  from binding_parameters_fixed [OF h] h show ?thesis by blast
qed

text \<open>
  C5. Assembly is deterministic: two runs of the constructor on equal ids and equal
  properties build the same stack, in any two scopes that accept it and whatever else the
  scopes hold, so that on equal scopes the two results are equal as a whole. No name in
  the stack is drawn at random or depends on the scope.
\<close>

theorem assembly_deterministic:
  assumes "ElsaDataBeaconLambdaStack scope1 ident1 props1 = Inr a1"
    and "ElsaDataBeaconLambdaStack scope2 ident2 props2 = Inr a2"
    and "ident1 = ident2"
    and "props1 = props2"
  shows "\<exists>s. a1 = register scope1 s \<and> a2 = register scope2 s \<and>
             map_of (stacks a1) ident1 = Some s \<and> map_of (stacks a2) ident2 = Some s"
  using ElsaDataBeaconLambdaStack_Inr(2,3) [OF assms(1)]
    ElsaDataBeaconLambdaStack_Inr(2,3) [OF assms(2)] assms(3,4)
  by simp

text \<open>
  C5, at concrete inputs: the same stack is built in an empty application and in one that
  already holds another stack; built twice in the empty application, the results are
  equal.
\<close>

theorem assembly_deterministic_witness:
  "ElsaDataBeaconLambdaStack new_App ''ElaDataBeaconLambdaStack'' None =
     Inr (register new_App (beaconStack ''ElaDataBeaconLambdaStack'' None)) \<and>
   ElsaDataBeaconLambdaStack (register new_App (beaconStack ''Other'' None))
       ''ElaDataBeaconLambdaStack'' None =
     Inr (register (register new_App (beaconStack ''Other'' None))
            (beaconStack ''ElaDataBeaconLambdaStack'' None)) \<and>
   (\<exists>s. register new_App (beaconStack ''ElaDataBeaconLambdaStack'' None) =
          register new_App s \<and>
        register (register new_App (beaconStack ''Other'' None))
            (beaconStack ''ElaDataBeaconLambdaStack'' None) =
          register (register new_App (beaconStack ''Other'' None)) s \<and>
        map_of (stacks (register new_App (beaconStack ''ElaDataBeaconLambdaStack'' None)))
            ''ElaDataBeaconLambdaStack'' = Some s \<and>
        map_of (stacks (register (register new_App (beaconStack ''Other'' None))
            (beaconStack ''ElaDataBeaconLambdaStack'' None)))
            ''ElaDataBeaconLambdaStack'' = Some s)"
proof -
  have h1: "ElsaDataBeaconLambdaStack new_App ''ElaDataBeaconLambdaStack'' None =
     Inr (register new_App (beaconStack ''ElaDataBeaconLambdaStack'' None))"
    by (simp add: ElsaDataBeaconLambdaStack_result new_App_def)
  have h2: "ElsaDataBeaconLambdaStack (register new_App (beaconStack ''Other'' None))
       ''ElaDataBeaconLambdaStack'' None =
     Inr (register (register new_App (beaconStack ''Other'' None))
            (beaconStack ''ElaDataBeaconLambdaStack'' None))"
    by (simp add: ElsaDataBeaconLambdaStack_result new_App_def register_def beaconStack_def)
  from assembly_deterministic [OF h1 h2 refl refl] h1 h2 show ?thesis by blast
qed

text \<open>
  C6. The execution identity trusts the lambda service principal and carries the basic
  execution policy from the moment the identity factory (the creation of the role and the
  attachment of the managed policy) has produced it, and keeps both through the rest of
  the assembly: after the inline statement is attached, after the function is created, and
  in the stack that the constructor registers, whose only role it is.
\<close>

theorem identity_invariant:
  assumes "new_Stack scope ident props = Inr this0"
  shows "\<exists>this1 lambdaRole this2 this3 this4 beacon r2 r3 r4.
     new_Role this0 ''Role'' (lambdaRole_props ident) = Inr (this1, lambdaRole) \<and>
     this2 = addManagedPolicy lambdaRole basicExecutionPolicy this1 \<and>
     roleAt this2 lambdaRole = Some r2 \<and> identityInvariant r2 \<and>
     this3 = addToPolicy lambdaRole s3BucketPolicy this2 \<and>
     roleAt this3 lambdaRole = Some r3 \<and> identityInvariant r3 \<and>
     new_DockerImageFunction this3 ''BeaconHandler'' (beacon_props lambdaRole) =
       Inr (this4, beacon) \<and>
     roleAt this4 lambdaRole = Some r4 \<and> identityInvariant r4 \<and>
     rolesOf (children this4) = [r4] \<and>
     ElsaDataBeaconLambdaStack scope ident props = Inr (register scope this4)"
proof -
  from assms have this0: "this0 = \<lparr>stackId = ident,
      stackEnv = (case props of None \<Rightarrow> None | Some p \<Rightarrow> env p), children = []\<rparr>"
    and fresh: "ident \<notin> set (map fst (stacks scope))"
    by (auto simp: new_Stack_def split: if_splits)
  let ?this1 = "this0\<lparr>children := [(''Role'', RoleNode
      \<lparr>assumedBy = ServicePrincipal ''lambda.amazonaws.com'',
       description = ''Lambda execution role for '' @ ident,
       managedPolicies = [], statements = []\<rparr>)]\<rparr>"
  let ?this2 = "addManagedPolicy ''Role'' basicExecutionPolicy ?this1"
  let ?this3 = "addToPolicy ''Role'' s3BucketPolicy ?this2"
  let ?this4 = "?this3\<lparr>children := children ?this3 @
      [(''BeaconHandler'', FunctionNode (beacon_props ''Role''))]\<rparr>"
  have s1: "new_Role this0 ''Role'' (lambdaRole_props ident) = Inr (?this1, ''Role'')"
    by (simp add: this0 new_Role_def addChild_def lambdaRole_props_def)
  have s2: "roleAt ?this2 ''Role'' =
      Some \<lparr>assumedBy = ServicePrincipal ''lambda.amazonaws.com'',
       description = ''Lambda execution role for '' @ ident,
       managedPolicies = [basicExecutionPolicy], statements = []\<rparr>"
    by (simp add: this0 addManagedPolicy_def modify_def addOnce_def)
  have s3: "roleAt ?this3 ''Role'' =
      Some \<lparr>assumedBy = ServicePrincipal ''lambda.amazonaws.com'',
       description = ''Lambda execution role for '' @ ident,
       managedPolicies = [basicExecutionPolicy], statements = [s3BucketPolicy]\<rparr>"
    by (simp add: this0 addManagedPolicy_def addToPolicy_def modify_def addOnce_def)
  have s4: "new_DockerImageFunction ?this3 ''BeaconHandler'' (beacon_props ''Role'') =
      Inr (?this4, ''BeaconHandler'')"
    by (simp add: this0 new_DockerImageFunction_def addChild_def addManagedPolicy_def
        addToPolicy_def modify_def addOnce_def)
  have s5: "roleAt ?this4 ''Role'' =
      Some \<lparr>assumedBy = ServicePrincipal ''lambda.amazonaws.com'',
       description = ''Lambda execution role for '' @ ident,
       managedPolicies = [basicExecutionPolicy], statements = [s3BucketPolicy]\<rparr>"
    by (simp add: this0 addManagedPolicy_def addToPolicy_def modify_def addOnce_def)
  have s6: "rolesOf (children ?this4) =
      [\<lparr>assumedBy = ServicePrincipal ''lambda.amazonaws.com'',
       description = ''Lambda execution role for '' @ ident,
       managedPolicies = [basicExecutionPolicy], statements = [s3BucketPolicy]\<rparr>]"
    by (simp add: this0 addManagedPolicy_def addToPolicy_def modify_def addOnce_def)
  have inv: "identityInvariant \<lparr>assumedBy = ServicePrincipal ''lambda.amazonaws.com'',
       description = ''Lambda execution role for '' @ ident,
       managedPolicies = [basicExecutionPolicy], statements = sts\<rparr>" for sts
    by (simp add: identityInvariant_def basicExecutionPolicy_def)
  have s7: "ElsaDataBeaconLambdaStack scope ident props = Inr (register scope ?this4)"
    unfolding ElsaDataBeaconLambdaStack_def assms using s1 s4 by (simp add: Let_def)
  from s1 s2 s3 s4 s5 s6 s7 inv show ?thesis by blast
qed

text \<open>
  C6, at a concrete input: the fresh stack of the entry script's id in an empty
  application.
\<close>

theorem identity_invariant_witness:
  "new_Stack new_App ''ElaDataBeaconLambdaStack'' None =
     Inr \<lparr>stackId = ''ElaDataBeaconLambdaStack'', stackEnv = None, children = []\<rparr> \<and>
   (\<exists>this4 r4.
      ElsaDataBeaconLambdaStack new_App ''ElaDataBeaconLambdaStack'' None =
        Inr (register new_App this4) \<and>
      rolesOf (children this4) = [r4] \<and> identityInvariant r4)"
proof -
  have h: "new_Stack new_App ''ElaDataBeaconLambdaStack'' None =
     Inr \<lparr>stackId = ''ElaDataBeaconLambdaStack'', stackEnv = None, children = []\<rparr>"
    by (simp add: new_Stack_def new_App_def)
  from identity_invariant [OF h] h show ?thesis by blast
qed

section \<open>Checks that the specification asks for and the source does not make\<close>

text \<open>
  C2, as stated, fails: a statement with a writing action on a bucket outside the approved
  prefix is built like any other.
\<close>

theorem permission_scope_counterexample:
  "\<not> readOnlyAction ''s3:Put*'' \<and>
   \<not> approvedResource ''arn:aws:s3:::other*'' \<and>
   new_PolicyStatement
     \<lparr>actions = [''s3:Put*''], resources = [''arn:aws:s3:::other*'']\<rparr> =
     \<lparr>actions = [''s3:Put*''], resources = [''arn:aws:s3:::other*''], effect = ALLOW\<rparr>"
  by (simp add: readOnlyAction_def approvedResource_def new_PolicyStatement_def addOnce_def)

text \<open>
  C2, amended. The statement builder checks neither the actions against the read-only
  allow-list nor the resources against the approved prefix: it builds a statement for
  s3:Delete* on a bucket within the prefix, and for s3:Get* on a bucket outside it. The
  stack itself only ever asks for one statement, with the actions s3:List* and s3:Get* on
  arn:aws:s3:::umccr-10*, all of them within the allow-list and the prefix; it is the
  only statement of the only role of every stack that the constructor builds.
\<close>

theorem permission_scope_unchecked:
  assumes "ElsaDataBeaconLambdaStack scope ident props = Inr a"
  shows "new_PolicyStatement
           \<lparr>actions = [''s3:Delete*''], resources = [''arn:aws:s3:::umccr-10*'']\<rparr> =
           \<lparr>actions = [''s3:Delete*''], resources = [''arn:aws:s3:::umccr-10*''],
            effect = ALLOW\<rparr> \<and>
         \<not> readOnlyAction ''s3:Delete*'' \<and>
         approvedResource ''arn:aws:s3:::umccr-10*'' \<and>
         new_PolicyStatement
           \<lparr>actions = [''s3:Get*''], resources = [''arn:aws:s3:::elsewhere*'']\<rparr> =
           \<lparr>actions = [''s3:Get*''], resources = [''arn:aws:s3:::elsewhere*''],
            effect = ALLOW\<rparr> \<and>
         readOnlyAction ''s3:Get*'' \<and>
         \<not> approvedResource ''arn:aws:s3:::elsewhere*'' \<and>
         (\<exists>s r. map snd (stacks a) = map snd (stacks scope) @ [s] \<and>
                rolesOf (children s) = [r] \<and>
                statements r = [s3BucketPolicy]) \<and>
         actions s3BucketPolicy = [''s3:List*'', ''s3:Get*''] \<and>
         resources s3BucketPolicy = [''arn:aws:s3:::umccr-10*''] \<and>
         list_all readOnlyAction (actions s3BucketPolicy) \<and>
         list_all approvedResource (resources s3BucketPolicy)"
proof -
  have builder:
    "new_PolicyStatement
       \<lparr>actions = [''s3:Delete*''], resources = [''arn:aws:s3:::umccr-10*'']\<rparr> =
       \<lparr>actions = [''s3:Delete*''], resources = [''arn:aws:s3:::umccr-10*''],
        effect = ALLOW\<rparr>"
    "new_PolicyStatement
       \<lparr>actions = [''s3:Get*''], resources = [''arn:aws:s3:::elsewhere*'']\<rparr> =
       \<lparr>actions = [''s3:Get*''], resources = [''arn:aws:s3:::elsewhere*''],
        effect = ALLOW\<rparr>"
    by (simp_all add: new_PolicyStatement_def addOnce_def)
  have scope:
    "\<not> readOnlyAction ''s3:Delete*''" "approvedResource ''arn:aws:s3:::umccr-10*''"
    "readOnlyAction ''s3:Get*''" "\<not> approvedResource ''arn:aws:s3:::elsewhere*''"
    by (simp_all add: readOnlyAction_def approvedResource_def)
  have literal:
    "actions s3BucketPolicy = [''s3:List*'', ''s3:Get*'']"
    "resources s3BucketPolicy = [''arn:aws:s3:::umccr-10*'']"
    by (simp_all add: s3BucketPolicy_def new_PolicyStatement_def addOnce_def)
  have inside:
    "list_all readOnlyAction (actions s3BucketPolicy)"
    "list_all approvedResource (resources s3BucketPolicy)"
    by (simp_all add: literal readOnlyAction_def approvedResource_def)
  let ?s = "beaconStack ident props"
  let ?r = "hd (rolesOf (children ?s))"
  have "map snd (stacks a) = map snd (stacks scope) @ [?s]"
    using ElsaDataBeaconLambdaStack_Inr(2) [OF assms] by (simp add: register_def)
  moreover have "rolesOf (children ?s) = [?r]"
    by (simp add: beaconStack_roles)
  moreover have "statements ?r = [s3BucketPolicy]"
    by (simp add: beaconStack_roles s3BucketPolicy_def new_PolicyStatement_def addOnce_def)
  ultimately have built:
    "\<exists>s r. map snd (stacks a) = map snd (stacks scope) @ [s] \<and>
           rolesOf (children s) = [r] \<and> statements r = [s3BucketPolicy]"
    by (intro exI [of _ ?s] exI [of _ ?r] conjI)
  show ?thesis
    by (intro conjI) (rule builder scope literal inside built)+
qed

text \<open>
  C2, at a concrete input: the stack of the entry script.
\<close>

theorem permission_scope_unchecked_witness:
  "elsa_data_beacon_lambda =
     Inr (register app
            (beaconStack ''ElaDataBeaconLambdaStack''
               (Some \<lparr>env = Some \<lparr>account = ''843407916570'',
                                   region = ''ap-southeast-2''\<rparr>\<rparr>))) \<and>
   (\<exists>s r. map snd (stacks (register app
            (beaconStack ''ElaDataBeaconLambdaStack''
               (Some \<lparr>env = Some \<lparr>account = ''843407916570'',
                                   region = ''ap-southeast-2''\<rparr>\<rparr>)))) = [s] \<and>
          rolesOf (children s) = [r] \<and>
          statements r = [s3BucketPolicy] \<and>
          list_all readOnlyAction (actions s3BucketPolicy) \<and>
          list_all approvedResource (resources s3BucketPolicy))"
proof -
  have h: "ElsaDataBeaconLambdaStack app ''ElaDataBeaconLambdaStack''
       (Some \<lparr>env = Some \<lparr>account = ''843407916570'', region = ''ap-southeast-2''\<rparr>\<rparr>) =
     Inr (register app
            (beaconStack ''ElaDataBeaconLambdaStack''
               (Some \<lparr>env = Some \<lparr>account = ''843407916570'',
                                   region = ''ap-southeast-2''\<rparr>\<rparr>)))"
    by (simp add: ElsaDataBeaconLambdaStack_result app_def new_App_def)
  have e: "map snd (stacks app) = []"
    by (simp add: app_def new_App_def)
  from permission_scope_unchecked [OF h] e
  have c: "\<exists>s r. map snd (stacks (register app
            (beaconStack ''ElaDataBeaconLambdaStack''
               (Some \<lparr>env = Some \<lparr>account = ''843407916570'',
                                   region = ''ap-southeast-2''\<rparr>\<rparr>)))) = [s] \<and>
          rolesOf (children s) = [r] \<and>
          statements r = [s3BucketPolicy]"
    by simp
  from permission_scope_unchecked [OF h]
  have l: "list_all readOnlyAction (actions s3BucketPolicy)"
    "list_all approvedResource (resources s3BucketPolicy)"
    by blast+
  from h have h': "elsa_data_beacon_lambda =
     Inr (register app
            (beaconStack ''ElaDataBeaconLambdaStack''
               (Some \<lparr>env = Some \<lparr>account = ''843407916570'',
                                   region = ''ap-southeast-2''\<rparr>\<rparr>)))"
    by (simp add: elsa_data_beacon_lambda_def)
  from c obtain s r where sr: "map snd (stacks (register app
            (beaconStack ''ElaDataBeaconLambdaStack''
               (Some \<lparr>env = Some \<lparr>account = ''843407916570'',
                                   region = ''ap-southeast-2''\<rparr>\<rparr>)))) = [s]"
      "rolesOf (children s) = [r]" "statements r = [s3BucketPolicy]"
    by auto
  show ?thesis
    by (intro conjI exI [of _ s] exI [of _ r]) (rule h' sr l)+
qed

text \<open>
  C3, as stated, fails: a function with a timeout of 1000 seconds, above the platform
  maximum, and one with a timeout of 0 seconds are both created.
\<close>

theorem timeout_counterexample:
  "platformMaximum < toSeconds (Duration_seconds 1000) \<and>
   new_DockerImageFunction
     \<lparr>stackId = ''ElaDataBeaconLambdaStack'', stackEnv = None, children = []\<rparr>
     ''BeaconHandler''
     \<lparr>code = fromImageAsset ''application/lambda/beacon'' [],
      timeout = Duration_seconds 1000,
      functionName = ''elsa-data-beacon'',
      architecture = ARM_64,
      role = ''Role''\<rparr> =
   Inr (\<lparr>stackId = ''ElaDataBeaconLambdaStack'', stackEnv = None,
         children =
           [(''BeaconHandler'',
             FunctionNode
               \<lparr>code = fromImageAsset ''application/lambda/beacon'' [],
                timeout = Duration_seconds 1000,
                functionName = ''elsa-data-beacon'',
                architecture = ARM_64,
                role = ''Role''\<rparr>)]\<rparr>,
        ''BeaconHandler'') \<and>
   toSeconds (Duration_seconds 0) \<le> 0 \<and>
   new_DockerImageFunction
     \<lparr>stackId = ''ElaDataBeaconLambdaStack'', stackEnv = None, children = []\<rparr>
     ''BeaconHandler''
     \<lparr>code = fromImageAsset ''application/lambda/beacon'' [],
      timeout = Duration_seconds 0,
      functionName = ''elsa-data-beacon'',
      architecture = ARM_64,
      role = ''Role''\<rparr> =
   Inr (\<lparr>stackId = ''ElaDataBeaconLambdaStack'', stackEnv = None,
         children =
           [(''BeaconHandler'',
             FunctionNode
               \<lparr>code = fromImageAsset ''application/lambda/beacon'' [],
                timeout = Duration_seconds 0,
                functionName = ''elsa-data-beacon'',
                architecture = ARM_64,
                role = ''Role''\<rparr>)]\<rparr>,
        ''BeaconHandler'')"
  by (simp add: platformMaximum_def new_DockerImageFunction_def addChild_def)

text \<open>
  C3, amended. No range check is made on the timeout at assembly: at the point where the
  constructor creates the function, a timeout of any whole number of seconds in place of
  60 (zero, or above the platform maximum) is accepted and recorded with the function.
  The stack itself always passes 60 seconds, which is positive and within the platform
  maximum, and the stack that the constructor builds has exactly one function, with that
  timeout. The bound on the seconds is the largest whole number that the framework's
  number type holds exactly.
\<close>

theorem timeout_range_unchecked:
  assumes "new_Stack scope ident props = Inr this0"
    and "t \<le> 9007199254740991"
  shows "\<exists>this1 lambdaRole this3 this4 beacon s f.
     new_Role this0 ''Role'' (lambdaRole_props ident) = Inr (this1, lambdaRole) \<and>
     this3 = addToPolicy lambdaRole s3BucketPolicy
               (addManagedPolicy lambdaRole basicExecutionPolicy this1) \<and>
     new_DockerImageFunction this3 ''BeaconHandler''
         ((beacon_props lambdaRole)\<lparr>timeout := Duration_seconds t\<rparr>) =
       Inr (this4, beacon) \<and>
     map timeout (functionsOf (children this4)) = [Duration_seconds t] \<and>
     ElsaDataBeaconLambdaStack scope ident props = Inr (register scope s) \<and>
     functionsOf (children s) = [f] \<and>
     timeout f = Duration_seconds 60 \<and>
     0 < toSeconds (timeout f) \<and>
     toSeconds (timeout f) \<le> platformMaximum"
proof -
  from assms(1) have this0: "this0 = \<lparr>stackId = ident,
      stackEnv = (case props of None \<Rightarrow> None | Some p \<Rightarrow> env p), children = []\<rparr>"
    and fresh: "ident \<notin> set (map fst (stacks scope))"
    by (auto simp: new_Stack_def split: if_splits)
  let ?this1 = "this0\<lparr>children := [(''Role'', RoleNode
      \<lparr>assumedBy = ServicePrincipal ''lambda.amazonaws.com'',
       description = ''Lambda execution role for '' @ ident,
       managedPolicies = [], statements = []\<rparr>)]\<rparr>"
  let ?this3 = "addToPolicy ''Role'' s3BucketPolicy
      (addManagedPolicy ''Role'' basicExecutionPolicy ?this1)"
  let ?p = "(beacon_props ''Role'')\<lparr>timeout := Duration_seconds t\<rparr>"
  let ?this4 = "?this3\<lparr>children := children ?this3 @ [(''BeaconHandler'', FunctionNode ?p)]\<rparr>"
  let ?s = "beaconStack ident props"
  let ?f = "hd (functionsOf (children ?s))"
  have s1: "new_Role this0 ''Role'' (lambdaRole_props ident) = Inr (?this1, ''Role'')"
    by (simp add: this0 new_Role_def addChild_def lambdaRole_props_def)
  have s4: "new_DockerImageFunction ?this3 ''BeaconHandler'' ?p = Inr (?this4, ''BeaconHandler'')"
    by (simp add: this0 new_DockerImageFunction_def addChild_def addManagedPolicy_def
        addToPolicy_def modify_def addOnce_def)
  have s5: "map timeout (functionsOf (children ?this4)) = [Duration_seconds t]"
    by (simp add: this0 addManagedPolicy_def addToPolicy_def modify_def addOnce_def)
  have s6: "ElsaDataBeaconLambdaStack scope ident props = Inr (register scope ?s)"
    using fresh by (simp add: ElsaDataBeaconLambdaStack_result)
  have s7: "functionsOf (children ?s) = [?f]" "timeout ?f = Duration_seconds 60"
    "0 < toSeconds (timeout ?f)" "toSeconds (timeout ?f) \<le> platformMaximum"
    by (simp_all add: beaconStack_functions platformMaximum_def)
  show ?thesis
    by (intro exI [of _ ?this1] exI [of _ "''Role''"] exI [of _ ?this3] exI [of _ ?this4]
        exI [of _ "''BeaconHandler''"] exI [of _ ?s] exI [of _ ?f] conjI)
      (rule s1 s4 s5 s6 s7 refl)+
qed

text \<open>
  C3, at a concrete input: the entry script's stack and a timeout of 1000 seconds, above
  the platform maximum.
\<close>

theorem timeout_range_unchecked_witness:
  "new_Stack new_App ''ElaDataBeaconLambdaStack''
     (Some \<lparr>env = Some \<lparr>account = ''843407916570'', region = ''ap-southeast-2''\<rparr>\<rparr>) =
     Inr \<lparr>stackId = ''ElaDataBeaconLambdaStack'',
          stackEnv = Some \<lparr>account = ''843407916570'', region = ''ap-southeast-2''\<rparr>,
          children = []\<rparr> \<and>
   (1000::nat) \<le> 9007199254740991 \<and>
   platformMaximum < 1000 \<and>
   (\<exists>this1 lambdaRole this4 beacon.
      new_Role
        \<lparr>stackId = ''ElaDataBeaconLambdaStack'',
         stackEnv = Some \<lparr>account = ''843407916570'', region = ''ap-southeast-2''\<rparr>,
         children = []\<rparr>
        ''Role'' (lambdaRole_props ''ElaDataBeaconLambdaStack'') = Inr (this1, lambdaRole) \<and>
      new_DockerImageFunction
        (addToPolicy lambdaRole s3BucketPolicy
           (addManagedPolicy lambdaRole basicExecutionPolicy this1))
        ''BeaconHandler''
        ((beacon_props lambdaRole)\<lparr>timeout := Duration_seconds 1000\<rparr>) =
        Inr (this4, beacon) \<and>
      map timeout (functionsOf (children this4)) = [Duration_seconds 1000])"
proof -
  have h: "new_Stack new_App ''ElaDataBeaconLambdaStack''
     (Some \<lparr>env = Some \<lparr>account = ''843407916570'', region = ''ap-southeast-2''\<rparr>\<rparr>) =
     Inr \<lparr>stackId = ''ElaDataBeaconLambdaStack'',
          stackEnv = Some \<lparr>account = ''843407916570'', region = ''ap-southeast-2''\<rparr>,
          children = []\<rparr>"
    by (simp add: new_Stack_def new_App_def)
  have b: "(1000::nat) \<le> 9007199254740991" "platformMaximum < 1000"
    by (simp_all add: platformMaximum_def)
  from timeout_range_unchecked [OF h b(1)]
  obtain this1 lambdaRole this4 beacon where c:
    "new_Role
        \<lparr>stackId = ''ElaDataBeaconLambdaStack'',
         stackEnv = Some \<lparr>account = ''843407916570'', region = ''ap-southeast-2''\<rparr>,
         children = []\<rparr>
        ''Role'' (lambdaRole_props ''ElaDataBeaconLambdaStack'') = Inr (this1, lambdaRole)"
    "new_DockerImageFunction
        (addToPolicy lambdaRole s3BucketPolicy
           (addManagedPolicy lambdaRole basicExecutionPolicy this1))
        ''BeaconHandler''
        ((beacon_props lambdaRole)\<lparr>timeout := Duration_seconds 1000\<rparr>) =
        Inr (this4, beacon)"
    "map timeout (functionsOf (children this4)) = [Duration_seconds 1000]"
    by auto
  show ?thesis
    by (intro conjI exI [of _ this1] exI [of _ lambdaRole] exI [of _ this4]
        exI [of _ beacon]) (rule h b c)+
qed

text \<open>
  C4, as stated, fails: two stacks assembled for the same account and region in one
  application each create the function elsa-data-beacon, and the second assembly succeeds.
\<close>

theorem duplicate_name_counterexample:
  "ElsaDataBeaconLambdaStack new_App ''First''
     (Some \<lparr>env = Some \<lparr>account = ''843407916570'', region = ''ap-southeast-2''\<rparr>\<rparr>) =
     Inr \<lparr>stacks =
       [(''First'',
         \<lparr>stackId = ''First'',
          stackEnv = Some \<lparr>account = ''843407916570'', region = ''ap-southeast-2''\<rparr>,
          children =
            [(''Role'',
              RoleNode \<lparr>assumedBy = ServicePrincipal ''lambda.amazonaws.com'',
                        description = ''Lambda execution role for First'',
                        managedPolicies =
                          [fromAwsManagedPolicyName
                             ''service-role/AWSLambdaBasicExecutionRole''],
                        statements =
                          [\<lparr>actions = [''s3:List*'', ''s3:Get*''],
                            resources = [''arn:aws:s3:::umccr-10*''],
                            effect = ALLOW\<rparr>]\<rparr>),
             (''BeaconHandler'',
              FunctionNode \<lparr>code = fromImageAsset ''application/lambda/beacon'' [],
                            timeout = Duration_seconds 60,
                            functionName = ''elsa-data-beacon'',
                            architecture = ARM_64,
                            role = ''Role''\<rparr>)]\<rparr>)]\<rparr> \<and>
   ElsaDataBeaconLambdaStack
     \<lparr>stacks =
       [(''First'',
         \<lparr>stackId = ''First'',
          stackEnv = Some \<lparr>account = ''843407916570'', region = ''ap-southeast-2''\<rparr>,
          children =
            [(''Role'',
              RoleNode \<lparr>assumedBy = ServicePrincipal ''lambda.amazonaws.com'',
                        description = ''Lambda execution role for First'',
                        managedPolicies =
                          [fromAwsManagedPolicyName
                             ''service-role/AWSLambdaBasicExecutionRole''],
                        statements =
                          [\<lparr>actions = [''s3:List*'', ''s3:Get*''],
                            resources = [''arn:aws:s3:::umccr-10*''],
                            effect = ALLOW\<rparr>]\<rparr>),
             (''BeaconHandler'',
              FunctionNode \<lparr>code = fromImageAsset ''application/lambda/beacon'' [],
                            timeout = Duration_seconds 60,
                            functionName = ''elsa-data-beacon'',
                            architecture = ARM_64,
                            role = ''Role''\<rparr>)]\<rparr>)]\<rparr>
     ''Second''
     (Some \<lparr>env = Some \<lparr>account = ''843407916570'', region = ''ap-southeast-2''\<rparr>\<rparr>) =
     Inr \<lparr>stacks =
       [(''First'',
         \<lparr>stackId = ''First'',
          stackEnv = Some \<lparr>account = ''843407916570'', region = ''ap-southeast-2''\<rparr>,
          children =
            [(''Role'',
              RoleNode \<lparr>assumedBy = ServicePrincipal ''lambda.amazonaws.com'',
                        description = ''Lambda execution role for First'',
                        managedPolicies =
                          [fromAwsManagedPolicyName
                             ''service-role/AWSLambdaBasicExecutionRole''],
                        statements =
                          [\<lparr>actions = [''s3:List*'', ''s3:Get*''],
                            resources = [''arn:aws:s3:::umccr-10*''],
                            effect = ALLOW\<rparr>]\<rparr>),
             (''BeaconHandler'',
              FunctionNode \<lparr>code = fromImageAsset ''application/lambda/beacon'' [],
                            timeout = Duration_seconds 60,
                            functionName = ''elsa-data-beacon'',
                            architecture = ARM_64,
                            role = ''Role''\<rparr>)]\<rparr>),
        (''Second'',
         \<lparr>stackId = ''Second'',
          stackEnv = Some \<lparr>account = ''843407916570'', region = ''ap-southeast-2''\<rparr>,
          children =
            [(''Role'',
              RoleNode \<lparr>assumedBy = ServicePrincipal ''lambda.amazonaws.com'',
                        description = ''Lambda execution role for Second'',
                        managedPolicies =
                          [fromAwsManagedPolicyName
                             ''service-role/AWSLambdaBasicExecutionRole''],
                        statements =
                          [\<lparr>actions = [''s3:List*'', ''s3:Get*''],
                            resources = [''arn:aws:s3:::umccr-10*''],
                            effect = ALLOW\<rparr>]\<rparr>),
             (''BeaconHandler'',
              FunctionNode \<lparr>code = fromImageAsset ''application/lambda/beacon'' [],
                            timeout = Duration_seconds 60,
                            functionName = ''elsa-data-beacon'',
                            architecture = ARM_64,
                            role = ''Role''\<rparr>)]\<rparr>)]\<rparr>"
  by (simp add: ElsaDataBeaconLambdaStack_result new_App_def register_def beaconStack_def)

text \<open>
  C4, amended. Assembly makes no uniqueness check on function names: the name is the fixed
  literal elsa-data-beacon, so whenever two assemblies of the stack with the same
  properties, and so for the same environment, succeed one after the other in a scope, the
  second creation of the function has succeeded under the name that the first one used,
  and the scope then holds both functions under that one name.
\<close>

theorem duplicate_names_coexist:
  assumes "ElsaDataBeaconLambdaStack scope i1 props = Inr a1"
    and "ElsaDataBeaconLambdaStack a1 i2 props = Inr a2"
  shows "\<exists>s1 s2 f1 f2.
     map snd (stacks a2) = map snd (stacks scope) @ [s1, s2] \<and>
     stackEnv s1 = (case props of None \<Rightarrow> None | Some p \<Rightarrow> env p) \<and>
     stackEnv s2 = stackEnv s1 \<and>
     functionsOf (children s1) = [f1] \<and>
     functionsOf (children s2) = [f2] \<and>
     functionName f1 = ''elsa-data-beacon'' \<and>
     functionName f2 = functionName f1"
proof -
  let ?s1 = "beaconStack i1 props" and ?s2 = "beaconStack i2 props"
  let ?f1 = "hd (functionsOf (children ?s1))" and ?f2 = "hd (functionsOf (children ?s2))"
  have "map snd (stacks a2) = map snd (stacks scope) @ [?s1, ?s2]"
    using ElsaDataBeaconLambdaStack_Inr(2) [OF assms(1)]
      ElsaDataBeaconLambdaStack_Inr(2) [OF assms(2)]
    by (simp add: register_def)
  moreover have "stackEnv ?s1 = (case props of None \<Rightarrow> None | Some p \<Rightarrow> env p)"
    "stackEnv ?s2 = stackEnv ?s1"
    by (simp_all add: beaconStack_def)
  moreover have "functionsOf (children ?s1) = [?f1]" "functionsOf (children ?s2) = [?f2]"
    "functionName ?f1 = ''elsa-data-beacon''" "functionName ?f2 = functionName ?f1"
    by (simp_all add: beaconStack_functions)
  ultimately show ?thesis
    by (intro exI [of _ ?s1] exI [of _ ?s2] exI [of _ ?f1] exI [of _ ?f2] conjI)
qed

text \<open>
  C4, at a concrete input: the ids First and Second in an empty application, both for
  account 843407916570 in ap-southeast-2; both assemblies succeed.
\<close>

theorem duplicate_names_coexist_witness:
  "ElsaDataBeaconLambdaStack new_App ''First''
     (Some \<lparr>env = Some \<lparr>account = ''843407916570'', region = ''ap-southeast-2''\<rparr>\<rparr>) =
     Inr (register new_App
            (beaconStack ''First''
               (Some \<lparr>env = Some \<lparr>account = ''843407916570'',
                                   region = ''ap-southeast-2''\<rparr>\<rparr>))) \<and>
   ElsaDataBeaconLambdaStack
     (register new_App
        (beaconStack ''First''
           (Some \<lparr>env = Some \<lparr>account = ''843407916570'',
                               region = ''ap-southeast-2''\<rparr>\<rparr>)))
     ''Second''
     (Some \<lparr>env = Some \<lparr>account = ''843407916570'', region = ''ap-southeast-2''\<rparr>\<rparr>) =
     Inr (register
            (register new_App
               (beaconStack ''First''
                  (Some \<lparr>env = Some \<lparr>account = ''843407916570'',
                                      region = ''ap-southeast-2''\<rparr>\<rparr>)))
            (beaconStack ''Second''
               (Some \<lparr>env = Some \<lparr>account = ''843407916570'',
                                   region = ''ap-southeast-2''\<rparr>\<rparr>))) \<and>
   (\<exists>s1 s2 f1 f2.
      map snd (stacks (register
            (register new_App
               (beaconStack ''First''
                  (Some \<lparr>env = Some \<lparr>account = ''843407916570'',
                                      region = ''ap-southeast-2''\<rparr>\<rparr>)))
            (beaconStack ''Second''
               (Some \<lparr>env = Some \<lparr>account = ''843407916570'',
                                   region = ''ap-southeast-2''\<rparr>\<rparr>)))) = [s1, s2] \<and>
      stackEnv s1 = Some \<lparr>account = ''843407916570'', region = ''ap-southeast-2''\<rparr> \<and>
      stackEnv s2 = stackEnv s1 \<and>
      functionsOf (children s1) = [f1] \<and>
      functionsOf (children s2) = [f2] \<and>
      functionName f1 = ''elsa-data-beacon'' \<and>
      functionName f2 = functionName f1)"
proof -
  let ?P = "Some \<lparr>env = Some \<lparr>account = ''843407916570'', region = ''ap-southeast-2''\<rparr>\<rparr>"
  have h1: "ElsaDataBeaconLambdaStack new_App ''First'' ?P =
      Inr (register new_App (beaconStack ''First'' ?P))"
    by (simp add: ElsaDataBeaconLambdaStack_result new_App_def)
  have h2: "ElsaDataBeaconLambdaStack (register new_App (beaconStack ''First'' ?P))
        ''Second'' ?P =
      Inr (register (register new_App (beaconStack ''First'' ?P))
             (beaconStack ''Second'' ?P))"
    by (simp add: ElsaDataBeaconLambdaStack_result new_App_def register_def beaconStack_def)
  have e: "map snd (stacks new_App) = []"
    by (simp add: new_App_def)
  from duplicate_names_coexist [OF h1 h2] e
  have c: "\<exists>s1 s2 f1 f2.
      map snd (stacks (register (register new_App (beaconStack ''First'' ?P))
             (beaconStack ''Second'' ?P))) = [s1, s2] \<and>
      stackEnv s1 = Some \<lparr>account = ''843407916570'', region = ''ap-southeast-2''\<rparr> \<and>
      stackEnv s2 = stackEnv s1 \<and>
      functionsOf (children s1) = [f1] \<and>
      functionsOf (children s2) = [f2] \<and>
      functionName f1 = ''elsa-data-beacon'' \<and>
      functionName f2 = functionName f1"
    by simp
  from c obtain s1 s2 f1 f2 where d:
      "map snd (stacks (register (register new_App (beaconStack ''First'' ?P))
             (beaconStack ''Second'' ?P))) = [s1, s2]"
      "stackEnv s1 = Some \<lparr>account = ''843407916570'', region = ''ap-southeast-2''\<rparr>"
      "stackEnv s2 = stackEnv s1"
      "functionsOf (children s1) = [f1]"
      "functionsOf (children s2) = [f2]"
      "functionName f1 = ''elsa-data-beacon''"
      "functionName f2 = functionName f1"
    by auto
  show ?thesis
    by (intro conjI exI [of _ s1] exI [of _ s2] exI [of _ f1] exI [of _ f2])
      (rule h1 h2 d)+
qed

end
